theory Spec2Isabelle
  imports Complex_Main
begin

section \<open>Webhook bridge (main.py): data model\<close>

text \<open>
  The program is a FastAPI application with four routes and a lifespan manager.
  Everything it computes is decided by how its awaited calls end: reading the request
  body, driving the Playwright page, posting with httpx. Those calls are library code;
  the model takes their outcomes from a record \<open>world\<close> and embeds the control flow of
  main.py around them: the order of the calls, the \<open>try\<close>/\<open>except\<close>/\<open>finally\<close> blocks,
  the globals \<open>browser\<close> and \<open>page\<close>, and the values that are built.
\<close>

subsection \<open>JSON values\<close>

text \<open>
  A Python float as far as the program can tell floats apart: a finite one, kept as
  the rational it denotes (the program never computes with it), or one of \<open>inf\<close>,
  \<open>-inf\<close>, \<open>nan\<close>. \<open>json.loads\<close> gives the latter for \<open>Infinity\<close>, \<open>-Infinity\<close>, \<open>NaN\<close>
  and for a literal out of range such as \<open>1e400\<close>; \<open>JSON.parse\<close> in the page gives
  \<open>Infinity\<close> for \<open>1e400\<close>, which Playwright hands over as \<open>inf\<close>.
\<close>

datatype pyfloat = Finite rat | PosInf | NegInf | NaN

text \<open>
  What \<open>json.loads\<close> returns: \<open>None\<close>, a bool, an int, a float, a str, a list, or a dict
  (in insertion order). A str is text that UTF-8 can encode.
\<close>

datatype json =
    JNull
  | JBool bool
  | JInt int
  | JFloat pyfloat
  | JStr string
  | JArr "json list"
  | JObj "(string \<times> json) list"

text \<open>
  Whether \<open>json.dumps(v, allow_nan=False)\<close> accepts \<open>v\<close>: no float in it is \<open>inf\<close>,
  \<open>-inf\<close> or \<open>nan\<close>.
\<close>

fun json_compliant :: "json \<Rightarrow> bool"
  and json_compliant_list :: "json list \<Rightarrow> bool"
  and json_compliant_items :: "(string \<times> json) list \<Rightarrow> bool" where
  "json_compliant JNull = True"
| "json_compliant (JBool b) = True"
| "json_compliant (JInt n) = True"
| "json_compliant (JFloat (Finite q)) = True"
| "json_compliant (JFloat PosInf) = False"
| "json_compliant (JFloat NegInf) = False"
| "json_compliant (JFloat NaN) = False"
| "json_compliant (JStr t) = True"
| "json_compliant (JArr xs) = json_compliant_list xs"
| "json_compliant (JObj kvs) = json_compliant_items kvs"
| "json_compliant_list [] = True"
| "json_compliant_list (x # xs) = (json_compliant x \<and> json_compliant_list xs)"
| "json_compliant_items [] = True"
| "json_compliant_items ((k, v) # kvs) = (json_compliant v \<and> json_compliant_items kvs)"

text \<open>\<open>isinstance(v, dict)\<close>\<close>

fun is_dict :: "json \<Rightarrow> bool" where
  "is_dict (JObj kvs) = True"
| "is_dict v = False"

subsection \<open>Exceptions\<close>

text \<open>
  The instances of \<open>Exception\<close> the handlers can meet: \<open>HTTPException(status_code, detail)\<close>
  of FastAPI, \<open>json.JSONDecodeError\<close>, and any other one (a Playwright \<open>Error\<close>, an httpx
  transport error, \<open>AttributeError\<close>, \<open>UnicodeDecodeError\<close>, ...), each of the latter two
  with the text \<open>str(e)\<close> gives. Signals that are not instances of \<open>Exception\<close>
  (task cancellation, \<open>KeyboardInterrupt\<close>) are outside the model.
\<close>

datatype exn =
    HTTPException int string
  | JSONDecodeError string
  | Exception string

text \<open>\<open>isinstance(e, json.JSONDecodeError)\<close>, the test of the first \<open>except\<close> clause.\<close>

fun is_JSONDecodeError :: "exn \<Rightarrow> bool" where
  "is_JSONDecodeError (JSONDecodeError m) = True"
| "is_JSONDecodeError e = False"

subsection \<open>Program state and effects\<close>

datatype handle = Handle nat

datatype level = INFO | ERROR

text \<open>
  The calls the program makes on the outside, in the order it makes them. A call is
  recorded when it is made, whether it returns or raises. A log record keeps the
  literal head of its message.
\<close>

datatype event =
    Log level string
  | PlaywrightStart
  | ChromiumLaunch
  | NewPage handle
  | Yield
  | BrowserClose handle
  | PlaywrightStop
  | PageGoto handle string
  | PageEvaluate handle json
  | HttpPost string json "(string \<times> string) list"

text \<open>
  The module globals \<open>browser\<close> and \<open>page\<close> (both \<open>None\<close> at import), the local
  \<open>playwright\<close> of the running \<open>lifespan\<close> frame (\<open>None\<close> while it is unbound), and the
  calls made so far.
\<close>

record prog_state =
  browser :: "handle option"
  page :: "handle option"
  playwright :: "handle option"
  trace :: "event list"

definition initial_state :: prog_state where
  "initial_state = \<lparr>browser = None, page = None, playwright = None, trace = []\<rparr>"

text \<open>
  A computation either returns a value or raises, and leaves a state behind in both
  cases.
\<close>

type_synonym 'a io = "prog_state \<Rightarrow> (exn + 'a) \<times> prog_state"

definition io_return :: "'a \<Rightarrow> 'a io" where
  "io_return x = (\<lambda>s. (Inr x, s))"

definition io_raise :: "exn \<Rightarrow> 'a io" where
  "io_raise e = (\<lambda>s. (Inl e, s))"

definition io_bind :: "'a io \<Rightarrow> ('a \<Rightarrow> 'b io) \<Rightarrow> 'b io" where
  "io_bind m f = (\<lambda>s. case m s of (Inl e, s') \<Rightarrow> (Inl e, s') | (Inr x, s') \<Rightarrow> f x s')"

text \<open>\<open>try: m except ...: h\<close>; the handler \<open>h\<close> re-raises what no clause matches.\<close>

definition io_try :: "'a io \<Rightarrow> (exn \<Rightarrow> 'a io) \<Rightarrow> 'a io" where
  "io_try m h = (\<lambda>s. case m s of (Inl e, s') \<Rightarrow> h e s' | (Inr x, s') \<Rightarrow> (Inr x, s'))"

text \<open>
  \<open>try: m finally: c\<close>: \<open>c\<close> runs however \<open>m\<close> ends; what \<open>c\<close> raises replaces the
  outcome of \<open>m\<close>.
\<close>

definition io_finally :: "'a io \<Rightarrow> unit io \<Rightarrow> 'a io" where
  "io_finally m c =
     (\<lambda>s. case m s of (r, s') \<Rightarrow>
        (case c s' of (Inl e, s'') \<Rightarrow> (Inl e, s'') | (Inr u, s'') \<Rightarrow> (r, s'')))"

definition emit :: "event \<Rightarrow> unit io" where
  "emit ev = (\<lambda>s. (Inr (), s\<lparr>trace := trace s @ [ev]\<rparr>))"

text \<open>An outcome handed in from outside: the value, or the exception raised.\<close>

definition io_await :: "exn + 'a \<Rightarrow> 'a io" where
  "io_await r = (case r of Inl e \<Rightarrow> io_raise e | Inr x \<Rightarrow> io_return x)"

text \<open>An awaited call on the outside: recorded, then ending as the world says.\<close>

definition extern :: "event \<Rightarrow> exn + 'a \<Rightarrow> 'a io" where
  "extern ev r = io_bind (emit ev) (\<lambda>u. io_await r)"

subsection \<open>Configuration and the outside world\<close>

text \<open>The module constants \<open>PORT\<close> and \<open>WEBHOOK_URL\<close>, fixed at import.\<close>

record config =
  PORT :: int
  WEBHOOK_URL :: string

text \<open>\<open>os.getenv(name, default)\<close>\<close>

definition getenv :: "(string \<rightharpoonup> string) \<Rightarrow> string \<Rightarrow> string \<Rightarrow> string" where
  "getenv env name dflt = (case env name of None \<Rightarrow> dflt | Some v \<Rightarrow> v)"

text \<open>
  Lines 26-27. \<open>os.getenv("PORT", 3005)\<close> is the int 3005 when the variable is unset and
  a str otherwise, which \<open>int\<close> parses or rejects with \<open>ValueError\<close>; the parser of the
  interpreter is the parameter \<open>py_int\<close>.
\<close>

definition load_config :: "(string \<Rightarrow> exn + int) \<Rightarrow> (string \<rightharpoonup> string) \<Rightarrow> exn + config" where
  "load_config py_int env =
     (case (case env ''PORT'' of None \<Rightarrow> Inr 3005 | Some v \<Rightarrow> py_int v) of
        Inl e \<Rightarrow> Inl e
      | Inr p \<Rightarrow> Inr \<lparr>PORT = p,
                     WEBHOOK_URL = getenv env ''WEBHOOK_URL''
                       ''https://n8n.produkmastah.com/webhook-test/3df77d1c-6227-41ee-b4ea-32b8d02f6405''\<rparr>)"

text \<open>
  What the in-page \<open>fetch\<close> of the relay script ends with: a response, with its status,
  its status text and the value \<open>response.json()\<close> resolves to (\<open>None\<close> when that promise
  rejects), as it reaches Python, or a rejected \<open>fetch\<close> with the message of its error.
\<close>

datatype fetch_outcome =
    Responded int string "json option"
  | Rejected string

text \<open>
  The upstream response httpx returns: \<open>response.status_code\<close>, \<open>response.content\<close>
  (bytes) and how \<open>response.json()\<close> ends.
\<close>

record upstream =
  up_status_code :: int
  up_content :: string
  up_json :: "exn + json"

text \<open>
  How each awaited library call ends, and what the library decides:
  \<^item> \<open>environ\<close>: the process environment;
  \<^item> \<open>clock\<close>: the time \<open>logging.Formatter().formatTime\<close> renders for a fresh record;
  \<^item> \<open>str_HTTPException\<close>: \<open>str(e)\<close> of an \<open>HTTPException\<close> (it differs between
    Starlette versions);
  \<^item> \<open>playwright_start\<close>, \<open>chromium_launch\<close>, \<open>new_page\<close>, \<open>browser_close\<close>,
    \<open>playwright_stop\<close>: the Playwright calls of \<open>lifespan\<close>;
  \<^item> \<open>serving\<close>: how the \<open>yield\<close> of \<open>lifespan\<close> is resumed, normally at shutdown or
    with an exception thrown into the generator;
  \<^item> \<open>page_goto\<close>, \<open>page_evaluate\<close>: the Playwright calls of \<open>forward_via_browser\<close>;
    \<open>page_evaluate\<close> raises, or the script ran and its \<open>fetch\<close> ended as given;
  \<^item> \<open>client_post\<close>: \<open>client.post\<close> of httpx.
\<close>

record world =
  environ :: "string \<rightharpoonup> string"
  clock :: string
  str_HTTPException :: "int \<Rightarrow> string \<Rightarrow> string"
  playwright_start :: "exn + handle"
  chromium_launch :: "exn + handle"
  new_page :: "exn + handle"
  serving :: "exn + unit"
  browser_close :: "exn + unit"
  playwright_stop :: "exn + unit"
  page_goto :: "exn + unit"
  page_evaluate :: "exn + fetch_outcome"
  client_post :: "exn + upstream"

text \<open>\<open>str(e)\<close>\<close>

fun str_exn :: "world \<Rightarrow> exn \<Rightarrow> string" where
  "str_exn w (HTTPException c d) = str_HTTPException w c d"
| "str_exn w (JSONDecodeError m) = m"
| "str_exn w (Exception m) = m"

section \<open>The program\<close>

subsection \<open>What FastAPI does with a handler's outcome\<close>

text \<open>
  A handler returns a dict (served as a JSON body with status 200) or a \<open>JSONResponse\<close>
  with its own status, or raises. FastAPI answers an \<open>HTTPException\<close> with its status
  code and the body \<open>{"detail": detail}\<close>, and any other exception with status 500.
\<close>

datatype handler_result =
    Content json
  | JSONResponse int json

record http_reply =
  http_status :: int
  http_body :: json

fun fastapi_reply :: "exn + handler_result \<Rightarrow> http_reply" where
  "fastapi_reply (Inr (Content j)) = \<lparr>http_status = 200, http_body = j\<rparr>"
| "fastapi_reply (Inr (JSONResponse c j)) = \<lparr>http_status = c, http_body = j\<rparr>"
| "fastapi_reply (Inl (HTTPException c d)) =
     \<lparr>http_status = c, http_body = JObj [(''detail'', JStr d)]\<rparr>"
| "fastapi_reply (Inl e) = \<lparr>http_status = 500, http_body = JStr ''Internal Server Error''\<rparr>"

text \<open>
  \<open>JSONResponse(status_code=c, content=v)\<close>. The constructor renders the content at
  once, with \<open>json.dumps(v, allow_nan=False, ...)\<close>, which raises \<open>ValueError\<close> on a
  float that is not finite.
\<close>

definition json_response :: "int \<Rightarrow> json \<Rightarrow> handler_result io" where
  "json_response c v =
     (if json_compliant v then io_return (JSONResponse c v)
      else io_raise (Exception ''Out of range float values are not JSON compliant''))"

text \<open>A route: the handler runs on the current state, FastAPI builds the reply.\<close>

definition route :: "handler_result io \<Rightarrow> prog_state \<Rightarrow> http_reply \<times> prog_state" where
  "route h s = (case h s of (r, s') \<Rightarrow> (fastapi_reply r, s'))"

text \<open>
  \<open>d.get(key, default)\<close>; on a value that is no dict the attribute lookup raises
  \<open>AttributeError\<close>.
\<close>

fun dict_get :: "json \<Rightarrow> string \<Rightarrow> json \<Rightarrow> json io" where
  "dict_get (JObj kvs) k dflt = io_return (case map_of kvs k of None \<Rightarrow> dflt | Some v \<Rightarrow> v)"
| "dict_get v k dflt = io_raise (Exception ''object has no attribute get'')"

subsection \<open>Lines 34-56: lifespan\<close>

text \<open>The \<open>finally\<close> block.\<close>

definition cleanup :: "world \<Rightarrow> unit io" where
  "cleanup w =
     io_bind
       (\<lambda>s. case browser s of
               Some b \<Rightarrow> io_bind (extern (BrowserClose b) (browser_close w))
                           (\<lambda>u. emit (Log INFO ''Browser ditutup'')) s
             | None \<Rightarrow> io_return () s)
       (\<lambda>u s. case playwright s of
               Some pw \<Rightarrow> extern PlaywrightStop (playwright_stop w) s
             | None \<Rightarrow> io_return () s)"

text \<open>The \<open>try\<close> body: the three initialisation steps, then the \<open>yield\<close>.\<close>

definition startup :: "world \<Rightarrow> unit io" where
  "startup w =
     io_bind (extern PlaywrightStart (playwright_start w)) (\<lambda>pw.
     io_bind (\<lambda>s. (Inr (), s\<lparr>playwright := Some pw\<rparr>)) (\<lambda>u.
     io_bind (extern ChromiumLaunch (chromium_launch w)) (\<lambda>b.
     io_bind (\<lambda>s. (Inr (), s\<lparr>browser := Some b\<rparr>)) (\<lambda>u.
     io_bind (extern (NewPage b) (new_page w)) (\<lambda>p.
     io_bind (\<lambda>s. (Inr (), s\<lparr>page := Some p\<rparr>)) (\<lambda>u.
     io_bind (emit (Log INFO ''Browser berhasil diinisialisasi'')) (\<lambda>u.
     extern Yield (serving w))))))))"

definition lifespan :: "world \<Rightarrow> unit io" where
  "lifespan w =
     io_bind (emit (Log INFO ''Inisialisasi browser Playwright...'')) (\<lambda>u.
     io_finally
       (io_try (startup w)
          (\<lambda>e. io_bind (emit (Log ERROR ''Error saat inisialisasi browser: '')) (\<lambda>u.
               io_raise e)))
       (cleanup w))"

subsection \<open>Lines 66-90: the two health endpoints\<close>

definition root :: "config \<Rightarrow> handler_result io" where
  "root cfg =
     io_return (Content (JObj
       [(''status'', JStr ''healthy''),
        (''service'', JStr ''webhook-bridge''),
        (''port'', JInt (PORT cfg)),
        (''webhook_url'', JStr (WEBHOOK_URL cfg))]))"

definition health_check :: "config \<Rightarrow> world \<Rightarrow> handler_result io" where
  "health_check cfg w =
     io_return (Content (JObj
       [(''status'', JStr ''healthy''),
        (''timestamp'', JStr (clock w)),
        (''config'', JObj
           [(''port'', JInt (PORT cfg)),
            (''webhook_url'', JStr (WEBHOOK_URL cfg)),
            (''log_level'', JStr (getenv (environ w) ''LOG_LEVEL'' ''INFO''))])]))"

subsection \<open>Lines 130-179: forward_via_browser\<close>

text \<open>
  The script given to \<open>page.evaluate\<close> (lines 145-167), as a function of how its \<open>fetch\<close>
  ends: the \<open>then\<close> branch with the parsed body, the inner \<open>catch\<close> with \<open>data: null\<close>,
  the outer \<open>catch\<close> with status 0.
\<close>

fun relay_script :: "fetch_outcome \<Rightarrow> json" where
  "relay_script (Responded st txt (Some j)) =
     JObj [(''status'', JInt st), (''statusText'', JStr txt), (''data'', j)]"
| "relay_script (Responded st txt None) =
     JObj [(''status'', JInt st), (''statusText'', JStr txt), (''data'', JNull)]"
| "relay_script (Rejected msg) =
     JObj [(''status'', JInt 0), (''statusText'', JStr ''Network Error''), (''error'', JStr msg)]"

text \<open>The dict of the \<open>except\<close> clause (lines 175-179).\<close>

definition browser_error :: "string \<Rightarrow> json" where
  "browser_error msg =
     JObj [(''status'', JInt 500), (''statusText'', JStr ''Browser Error''), (''error'', JStr msg)]"

text \<open>
  \<open>page.goto\<close> on the global \<open>page\<close>; while that is still \<open>None\<close> the attribute lookup
  raises \<open>AttributeError\<close>, inside the \<open>try\<close> (its message is written here without
  the quotation marks around the two names).
\<close>

definition the_page :: "handle io" where
  "the_page =
     (\<lambda>s. case page s of
             None \<Rightarrow> io_raise (Exception ''NoneType object has no attribute goto'') s
           | Some p \<Rightarrow> io_return p s)"

definition forward_via_browser :: "config \<Rightarrow> world \<Rightarrow> json \<Rightarrow> json io" where
  "forward_via_browser cfg w payload =
     io_try
       (io_bind the_page (\<lambda>p.
        io_bind (extern (PageGoto p (WEBHOOK_URL cfg)) (page_goto w)) (\<lambda>u.
        io_bind (extern (PageEvaluate p payload) (page_evaluate w)) (\<lambda>f.
        io_return (relay_script f)))))
       (\<lambda>e. io_bind (emit (Log ERROR ''Error during browser forwarding: '')) (\<lambda>u.
            io_return (browser_error (str_exn w e))))"

subsection \<open>Lines 92-128: POST /webhook\<close>

text \<open>The request, as far as the handlers look at it: how \<open>await request.json()\<close> ends.\<close>

type_synonym request = "exn + json"

definition receive_webhook :: "config \<Rightarrow> world \<Rightarrow> request \<Rightarrow> handler_result io" where
  "receive_webhook cfg w request =
     io_try
       (io_bind (io_await request) (\<lambda>payload.
        io_bind (emit (Log INFO ''Received webhook payload: '')) (\<lambda>u.
        io_bind (if \<not> is_dict payload
                 then io_raise (HTTPException 400 ''Payload harus berupa JSON object'')
                 else io_return ()) (\<lambda>u.
        io_bind (emit (Log INFO ''Forwarding payload to: '')) (\<lambda>u.
        io_bind (forward_via_browser cfg w payload) (\<lambda>result.
        io_bind (dict_get result ''status'' (JStr ''unknown'')) (\<lambda>st.
        io_bind (emit (Log INFO ''Forwarding completed with status: '')) (\<lambda>u.
        json_response 200 (JObj
          [(''message'', JStr ''Webhook processed successfully''),
           (''forwarded_to'', JStr (WEBHOOK_URL cfg)),
           (''result'', result)])))))))))
       (\<lambda>e. if is_JSONDecodeError e
            then io_bind (emit (Log ERROR ''Invalid JSON payload'')) (\<lambda>u.
                 io_raise (HTTPException 400 ''Invalid JSON payload''))
            else io_bind (emit (Log ERROR ''Error processing webhook: '')) (\<lambda>u.
                 io_raise (HTTPException 500 (str_exn w e))))"

subsection \<open>Lines 181-213: POST /webhook/direct\<close>


subsection \<open>The four routes\<close>

definition GET_root :: "config \<Rightarrow> prog_state \<Rightarrow> http_reply \<times> prog_state" where
  "GET_root cfg = route (root cfg)"

definition GET_health :: "config \<Rightarrow> world \<Rightarrow> prog_state \<Rightarrow> http_reply \<times> prog_state" where
  "GET_health cfg w = route (health_check cfg w)"

definition POST_webhook ::
  "config \<Rightarrow> world \<Rightarrow> request \<Rightarrow> prog_state \<Rightarrow> http_reply \<times> prog_state" where
  "POST_webhook cfg w request = route (receive_webhook cfg w request)"


section \<open>Observations used in the statements\<close>

text \<open>Field access on a JSON object, and along a path of keys.\<close>

fun json_field :: "json \<Rightarrow> string \<Rightarrow> json option" where
  "json_field (JObj kvs) k = map_of kvs k"
| "json_field v k = None"

fun json_path :: "json \<Rightarrow> string list \<Rightarrow> json option" where
  "json_path v [] = Some v"
| "json_path v (k # ks) = (case json_field v k of None \<Rightarrow> None | Some v' \<Rightarrow> json_path v' ks)"

text \<open>Kinds of recorded calls.\<close>

fun is_browser_call :: "event \<Rightarrow> bool" where
  "is_browser_call (PageGoto p url) = True"
| "is_browser_call (PageEvaluate p d) = True"
| "is_browser_call ev = False"


fun is_BrowserClose :: "event \<Rightarrow> bool" where
  "is_BrowserClose (BrowserClose b) = True"
| "is_BrowserClose ev = False"

fun is_PlaywrightStop :: "event \<Rightarrow> bool" where
  "is_PlaywrightStop PlaywrightStop = True"
| "is_PlaywrightStop ev = False"

text \<open>How far \<open>lifespan\<close> gets in a world: whether the driver started, and the browser
  that was launched, if any.\<close>

definition started :: "world \<Rightarrow> bool" where
  "started w = (case playwright_start w of Inl e \<Rightarrow> False | Inr pw \<Rightarrow> True)"

definition launched_browser :: "world \<Rightarrow> handle option" where
  "launched_browser w =
     (case playwright_start w of
        Inl e \<Rightarrow> None
      | Inr pw \<Rightarrow> (case chromium_launch w of Inl e \<Rightarrow> None | Inr b \<Rightarrow> Some b))"

text \<open>
  \<open>browser.close()\<close> did not raise: it was not called, no browser having been launched,
  or it returned.
\<close>

definition close_did_not_raise :: "world \<Rightarrow> bool" where
  "close_did_not_raise w =
     (case launched_browser w of
        None \<Rightarrow> True
      | Some b \<Rightarrow> (case browser_close w of Inl e \<Rightarrow> False | Inr u \<Rightarrow> True))"


subsection \<open>Concrete inputs\<close>

definition example_config :: config where
  "example_config = \<lparr>PORT = 3005, WEBHOOK_URL = ''https://hooks.example.test/in''\<rparr>"

text \<open>The state while requests are served, after a start-up that succeeded.\<close>

definition ready_state :: prog_state where
  "ready_state =
     \<lparr>browser = Some (Handle 1), page = Some (Handle 2), playwright = Some (Handle 0), trace = []\<rparr>"

text \<open>A world where everything works and the target answers 200 with \<open>{"ok": true}\<close>.\<close>

definition responding_world :: world where
  "responding_world =
     \<lparr>environ = Map.empty, clock = ''2024-01-01 00:00:00,000'',
      str_HTTPException = (\<lambda>c d. d),
      playwright_start = Inr (Handle 0), chromium_launch = Inr (Handle 1),
      new_page = Inr (Handle 2), serving = Inr (),
      browser_close = Inr (), playwright_stop = Inr (),
      page_goto = Inr (),
      page_evaluate = Inr (Responded 200 ''OK'' (Some (JObj [(''ok'', JBool True)]))),
      client_post = Inr \<lparr>up_status_code = 200, up_content = ''{\"ok\": true}'',
                          up_json = Inr (JObj [(''ok'', JBool True)])\<rparr>\<rparr>"




text \<open>A world where everything works until \<open>browser.close()\<close>, which raises.\<close>

definition close_fails_world :: world where
  "close_fails_world =
     responding_world\<lparr>browser_close := Inl (Exception ''Browser.close: Connection closed'')\<rparr>"

subsection \<open>The adapter and the lifespan, summarised\<close>

text \<open>What the browser adapter returns, branch by branch.\<close>

definition browser_result :: "world \<Rightarrow> prog_state \<Rightarrow> json" where
  "browser_result w s =
     (case page s of
        None \<Rightarrow> browser_error ''NoneType object has no attribute goto''
      | Some p \<Rightarrow>
          (case page_goto w of
             Inl e \<Rightarrow> browser_error (str_exn w e)
           | Inr u \<Rightarrow>
               (case page_evaluate w of
                  Inl e \<Rightarrow> browser_error (str_exn w e)
                | Inr f \<Rightarrow> relay_script f)))"

text \<open>The state \<open>lifespan\<close> has reached when its \<open>finally\<close> block begins.\<close>

definition before_cleanup :: "world \<Rightarrow> prog_state \<Rightarrow> (exn + unit) \<times> prog_state" where
  "before_cleanup w =
     io_try (startup w)
       (\<lambda>e. io_bind (emit (Log ERROR ''Error saat inisialisasi browser: '')) (\<lambda>u.
            io_raise e))"

section \<open>Evaluation lemmas\<close>

lemmas io_defs =
  io_return_def io_raise_def io_bind_def io_try_def io_finally_def emit_def io_await_def
  extern_def

lemma forward_via_browser_returns:
  "fst (forward_via_browser cfg w payload s) = Inr (browser_result w s)"
  by (simp add: forward_via_browser_def the_page_def browser_result_def io_defs
      split: option.splits sum.splits prod.splits)






lemma browser_result_trace [simp]: "browser_result w (s\<lparr>trace := t\<rparr>) = browser_result w s"
  by (simp add: browser_result_def)


lemma relay_script_compliant:
  "json_compliant (relay_script (Responded st txt (Some j))) = json_compliant j"
  "json_compliant (relay_script (Responded st txt None))"
  "json_compliant (relay_script (Rejected m))"
  by simp_all

lemma browser_error_compliant: "json_compliant (browser_error msg)"
  by (simp add: browser_error_def)



lemma receive_webhook_non_object:
  "\<not> is_dict v \<Longrightarrow>
   POST_webhook cfg w (Inr v) s =
     (\<lparr>http_status = 500,
       http_body = JObj [(''detail'',
         JStr (str_HTTPException w 400 ''Payload harus berupa JSON object''))]\<rparr>,
      s\<lparr>trace := trace s @ [Log INFO ''Received webhook payload: '',
                            Log ERROR ''Error processing webhook: '']\<rparr>)"
  by (simp add: POST_webhook_def route_def receive_webhook_def io_defs)





lemma before_cleanup_state:
  assumes "browser s = None" "playwright s = None"
  shows "browser (snd (before_cleanup w s)) = launched_browser w"
    and "(playwright (snd (before_cleanup w s)) \<noteq> None) = started w"
    and "filter is_BrowserClose (trace (snd (before_cleanup w s))) =
           filter is_BrowserClose (trace s)"
    and "filter is_PlaywrightStop (trace (snd (before_cleanup w s))) =
           filter is_PlaywrightStop (trace s)"
proof -
  show "browser (snd (before_cleanup w s)) = launched_browser w"
    using assms
    by (cases "playwright_start w"; cases "chromium_launch w"; cases "new_page w";
        cases "serving w")
       (simp_all add: before_cleanup_def startup_def io_defs launched_browser_def)
  show "(playwright (snd (before_cleanup w s)) \<noteq> None) = started w"
    using assms
    by (cases "playwright_start w"; cases "chromium_launch w"; cases "new_page w";
        cases "serving w")
       (simp_all add: before_cleanup_def startup_def io_defs started_def)
  show "filter is_BrowserClose (trace (snd (before_cleanup w s))) =
           filter is_BrowserClose (trace s)"
    by (cases "playwright_start w"; cases "chromium_launch w"; cases "new_page w";
        cases "serving w")
       (simp_all add: before_cleanup_def startup_def io_defs)
  show "filter is_PlaywrightStop (trace (snd (before_cleanup w s))) =
           filter is_PlaywrightStop (trace s)"
    by (cases "playwright_start w"; cases "chromium_launch w"; cases "new_page w";
        cases "serving w")
       (simp_all add: before_cleanup_def startup_def io_defs)
qed

lemma cleanup_closes:
  "filter is_BrowserClose (trace (snd (cleanup w s))) =
     filter is_BrowserClose (trace s) @
       (case browser s of None \<Rightarrow> [] | Some b \<Rightarrow> [BrowserClose b])"
  by (cases "browser s"; cases "playwright s"; cases "browser_close w";
      cases "playwright_stop w")
     (simp_all add: cleanup_def io_defs)

lemma cleanup_stops_unless:
  "(case browser s of
      None \<Rightarrow> True
    | Some b \<Rightarrow> (case browser_close w of Inl e \<Rightarrow> False | Inr u \<Rightarrow> True)) \<Longrightarrow>
   filter is_PlaywrightStop (trace (snd (cleanup w s))) =
     filter is_PlaywrightStop (trace s) @
       (if playwright s \<noteq> None then [PlaywrightStop] else [])"
  by (cases "browser s"; cases "playwright s"; cases "browser_close w";
      cases "playwright_stop w")
     (simp_all add: cleanup_def io_defs)

lemma lifespan_state:
  "snd (lifespan w s) =
     snd (cleanup w (snd (before_cleanup w
       (s\<lparr>trace := trace s @ [Log INFO ''Inisialisasi browser Playwright...'']\<rparr>))))"
  by (simp add: lifespan_def before_cleanup_def io_bind_def io_finally_def emit_def
      split: prod.splits sum.splits)

section \<open>The claims\<close>

text \<open>
  C1, as the code behaves. A body that is valid JSON but no object (42, "text", [1,2])
  reaches the \<open>raise HTTPException(status_code=400, ...)\<close> of line 104, which sits inside
  the \<open>try\<close>; \<open>HTTPException\<close> is an \<open>Exception\<close>, so the clause of line 126 catches it and
  raises status 500 in its place. The reply is 500, not 400. The browser adapter is not
  called: the trace gains two log records and nothing else.
\<close>

theorem non_object_body_answered_500:
  "POST_webhook cfg w (Inr (JInt 42)) s =
     (\<lparr>http_status = 500,
       http_body = JObj [(''detail'',
         JStr (str_HTTPException w 400 ''Payload harus berupa JSON object''))]\<rparr>,
      s\<lparr>trace := trace s @ [Log INFO ''Received webhook payload: '',
                            Log ERROR ''Error processing webhook: '']\<rparr>)
   \<and> http_status (fst (POST_webhook cfg w (Inr (JStr ''text'')) s)) = 500
   \<and> http_status (fst (POST_webhook cfg w (Inr (JArr [JInt 1, JInt 2])) s)) = 500
   \<and> filter is_browser_call (trace (snd (POST_webhook cfg w (Inr (JInt 42)) s))) =
       filter is_browser_call (trace s)"
  by (simp add: receive_webhook_non_object)

text \<open>
  C6, where the claim fails. The body is the single byte 0xff. It is not valid JSON,
  but \<open>json.loads\<close> fails on it while decoding, with \<open>UnicodeDecodeError\<close>, which is no
  \<open>json.JSONDecodeError\<close>: the clause of line 123 does not match, the clause of line 126
  does, and POST /webhook answers 500, not 400.
\<close>

theorem undecodable_body_counterexample:
  "fst (POST_webhook example_config responding_world
      (Inl (Exception
        ''utf-8 codec cannot decode byte 0xff in position 0: invalid start byte''))
      ready_state) =
     \<lparr>http_status = 500, http_body = JObj [(''detail'',
        JStr ''utf-8 codec cannot decode byte 0xff in position 0: invalid start byte'')]\<rparr>"
  by (simp add: POST_webhook_def route_def receive_webhook_def io_defs)

text \<open>
  C6, amended. Whenever \<open>await request.json()\<close> raises \<open>json.JSONDecodeError\<close>, as it
  does on a body of text that is not syntactically valid JSON such as \<open>{invalid\<close>,
  POST /webhook answers 400 with the detail "Invalid JSON payload", whatever the
  message of the error, having done nothing but log the error.
\<close>

theorem malformed_body_answered_400:
  "POST_webhook cfg w (Inl (JSONDecodeError m)) s =
     (\<lparr>http_status = 400, http_body = JObj [(''detail'', JStr ''Invalid JSON payload'')]\<rparr>,
      s\<lparr>trace := trace s @ [Log ERROR ''Invalid JSON payload'']\<rparr>)"
  by (simp add: POST_webhook_def route_def receive_webhook_def io_defs)

text \<open>
  C4. \<open>forward_via_browser\<close> returns in every world and state: it never raises. When
  \<open>page.goto\<close> raises \<open>e\<close>, or \<open>page.goto\<close> returns and \<open>page.evaluate\<close> raises \<open>e\<close>, the
  value returned is the dict with status 500, statusText "Browser Error" and error
  \<open>str(e)\<close>; so it is when the global \<open>page\<close> is not there at all.
\<close>

theorem forward_via_browser_never_raises:
  "(\<exists>r. fst (forward_via_browser cfg w payload s) = Inr r)
   \<and> fst (forward_via_browser cfg (w\<lparr>page_goto := Inl e\<rparr>) payload (s\<lparr>page := Some p\<rparr>)) =
       Inr (JObj [(''status'', JInt 500), (''statusText'', JStr ''Browser Error''),
                  (''error'', JStr (str_exn w e))])
   \<and> fst (forward_via_browser cfg (w\<lparr>page_goto := Inr (), page_evaluate := Inl e\<rparr>) payload
            (s\<lparr>page := Some p\<rparr>)) =
       Inr (JObj [(''status'', JInt 500), (''statusText'', JStr ''Browser Error''),
                  (''error'', JStr (str_exn w e))])
   \<and> (\<exists>msg. fst (forward_via_browser cfg w payload (s\<lparr>page := None\<rparr>)) =
       Inr (JObj [(''status'', JInt 500), (''statusText'', JStr ''Browser Error''),
                  (''error'', JStr msg)]))"
proof -
  have str: "str_exn (w\<lparr>page_goto := g\<rparr>) e = str_exn w e"
            "str_exn (w\<lparr>page_goto := g, page_evaluate := v\<rparr>) e = str_exn w e" for g v
    by (cases e; simp)+
  show ?thesis
    by (simp add: forward_via_browser_returns browser_result_def browser_error_def str)
qed













text \<open>
  C8. GET /health answers 200 in every world and state, with \<open>config.port\<close> equal to
  \<open>PORT\<close>, \<open>config.webhook_url\<close> equal to \<open>WEBHOOK_URL\<close> and \<open>config.log_level\<close> equal to
  the \<open>LOG_LEVEL\<close> of the environment (INFO when unset). GET / answers 200 with the
  service name, \<open>PORT\<close> and \<open>WEBHOOK_URL\<close>. Both leave the program state as it was: the
  globals are untouched and no call or log record is added.
\<close>

theorem health_endpoints_snapshot:
  "http_status (fst (GET_health cfg w s)) = 200
   \<and> json_path (http_body (fst (GET_health cfg w s))) [''config'', ''port'']
       = Some (JInt (PORT cfg))
   \<and> json_path (http_body (fst (GET_health cfg w s))) [''config'', ''webhook_url'']
       = Some (JStr (WEBHOOK_URL cfg))
   \<and> json_path (http_body (fst (GET_health cfg w s))) [''config'', ''log_level'']
       = Some (JStr (getenv (environ w) ''LOG_LEVEL'' ''INFO''))
   \<and> snd (GET_health cfg w s) = s
   \<and> http_status (fst (GET_root cfg s)) = 200
   \<and> json_field (http_body (fst (GET_root cfg s))) ''service'' = Some (JStr ''webhook-bridge'')
   \<and> json_field (http_body (fst (GET_root cfg s))) ''port'' = Some (JInt (PORT cfg))
   \<and> json_field (http_body (fst (GET_root cfg s))) ''webhook_url''
       = Some (JStr (WEBHOOK_URL cfg))
   \<and> snd (GET_root cfg s) = s"
  by (simp add: GET_health_def GET_root_def route_def health_check_def root_def io_defs)

text \<open>
  C9, where the claim fails. The driver starts, the browser is launched, the page is
  opened, the server runs and shuts down; then \<open>browser.close()\<close> of line 53 raises.
  The \<open>finally\<close> block ends there: \<open>playwright.stop()\<close> of line 56 is not called, so the
  driver that was started is never stopped.
\<close>

theorem close_raises_counterexample:
  "started close_fails_world
   \<and> filter is_BrowserClose (trace (snd (lifespan close_fails_world initial_state))) =
       [BrowserClose (Handle 1)]
   \<and> filter is_PlaywrightStop (trace (snd (lifespan close_fails_world initial_state))) = []"
  by (simp add: started_def close_fails_world_def responding_world_def lifespan_def
      startup_def cleanup_def io_defs initial_state_def)

text \<open>
  C9, amended. Run \<open>lifespan\<close> from the state the module is imported in, in any world:
  the start of the driver, the launch, the opening of the page and the serving phase
  may each return or raise. The \<open>finally\<close> block is reached in every case.
  \<open>browser.close()\<close> is called exactly once, on the browser that was launched, when one
  was launched, and not at all otherwise. When \<open>browser.close()\<close> did not raise,
  \<open>playwright.stop()\<close> is called exactly once if the driver was started and not at all
  otherwise.
\<close>

theorem lifespan_releases_once:
  "filter is_BrowserClose (trace (snd (lifespan w initial_state))) =
     (case launched_browser w of None \<Rightarrow> [] | Some b \<Rightarrow> [BrowserClose b])
   \<and> length (filter is_BrowserClose (trace (snd (lifespan w initial_state)))) =
       (case launched_browser w of None \<Rightarrow> 0 | Some b \<Rightarrow> 1)
   \<and> (close_did_not_raise w \<longrightarrow>
        length (filter is_PlaywrightStop (trace (snd (lifespan w initial_state)))) =
          (if started w then 1 else 0))"
proof -
  let ?s0 = "initial_state
    \<lparr>trace := trace initial_state @ [Log INFO ''Inisialisasi browser Playwright...'']\<rparr>"
  have s0: "browser ?s0 = None" "playwright ?s0 = None"
    "filter is_BrowserClose (trace ?s0) = []" "filter is_PlaywrightStop (trace ?s0) = []"
    by (simp_all add: initial_state_def)
  have closes: "filter is_BrowserClose (trace (snd (lifespan w initial_state))) =
     (case launched_browser w of None \<Rightarrow> [] | Some b \<Rightarrow> [BrowserClose b])"
    by (simp only: lifespan_state cleanup_closes before_cleanup_state [OF s0(1,2)] s0(3)
        append_Nil)
  have stops: "length (filter is_PlaywrightStop (trace (snd (lifespan w initial_state)))) =
     (if started w then 1 else 0)" if ok: "close_did_not_raise w"
  proof -
    have pre: "case browser (snd (before_cleanup w ?s0)) of
        None \<Rightarrow> True
      | Some b \<Rightarrow> (case browser_close w of Inl e \<Rightarrow> False | Inr u \<Rightarrow> True)"
      using ok by (simp add: close_did_not_raise_def before_cleanup_state(1) [OF s0(1,2)])
    have "filter is_PlaywrightStop (trace (snd (lifespan w initial_state))) =
       (if started w then [PlaywrightStop] else [])"
      by (simp only: lifespan_state cleanup_stops_unless [OF pre]
          before_cleanup_state [OF s0(1,2)] s0(4) append_Nil)
    then show ?thesis by simp
  qed
  show ?thesis
    using stops by (simp only: closes) (simp split: option.splits)
qed

text \<open>
  The amended C9 at a concrete input: the world where everything works, so that
  \<open>browser.close()\<close> returns; the browser is closed once and the driver stopped once.
\<close>

theorem lifespan_releases_once_witness:
  "close_did_not_raise responding_world
   \<and> started responding_world
   \<and> length (filter is_BrowserClose (trace (snd (lifespan responding_world initial_state)))) = 1
   \<and> length (filter is_PlaywrightStop (trace (snd (lifespan responding_world initial_state))))
       = 1"
proof -
  have ok: "close_did_not_raise responding_world"
    by (simp add: close_did_not_raise_def launched_browser_def responding_world_def)
  have st: "started responding_world"
    by (simp add: started_def responding_world_def)
  have lb: "launched_browser responding_world = Some (Handle 1)"
    by (simp add: launched_browser_def responding_world_def)
  from lifespan_releases_once [of responding_world] ok st lb show ?thesis
    by simp
qed

end
